theory Spec2Isabelle
  imports Complex_Main "HOL-Library.Multiset"
begin

section \<open>Element model\<close>

text \<open>
  The pipeline works on the dictionaries that the Overpass query returns and that the
  stages pass on as JSON. A key that may be missing is an \<open>option\<close> field: \<open>None\<close> is
  the absent key. A JSON number is an integer or a float; it is kept with its kind and
  its exact value, and Python compares the two kinds by value.
\<close>

datatype pynum = PyInt int | PyFloat rat

fun num_val :: "pynum \<Rightarrow> rat" where
  "num_val (PyInt i) = of_int i"
| "num_val (PyFloat q) = q"

definition num_lt :: "pynum \<Rightarrow> pynum \<Rightarrow> bool" where
  "num_lt a b = (num_val a < num_val b)"

definition num_gt :: "pynum \<Rightarrow> pynum \<Rightarrow> bool" where
  "num_gt a b = (num_val b < num_val a)"

datatype error = KeyError string | ValueError string

type_synonym tagmap = "string \<rightharpoonup> string"

record center_rec =
  c_lat :: "pynum option"
  c_lon :: "pynum option"

record element =
  etype :: "string option"
  eid :: "int option"
  lat :: "pynum option"
  lon :: "pynum option"
  center :: "center_rec option"
  tags :: "tagmap option"
  elevation_fetched :: "pynum option"

section \<open>filter.py\<close>


definition is_alpine_hut :: "element \<Rightarrow> bool" where
  "is_alpine_hut e =
     (case tags e of Some t \<Rightarrow> t ''tourism'' = Some ''alpine_hut'' | None \<Rightarrow> False)"

text \<open>\<open>element["type"]\<close> raises \<open>KeyError\<close> when the key is missing.\<close>

definition get_coordinates :: "element \<Rightarrow> error + (pynum option \<times> pynum option)" where
  "get_coordinates e =
     (case etype e of
        None \<Rightarrow> Inl (KeyError ''type'')
      | Some ty \<Rightarrow>
          if ty = ''node'' then Inr (lat e, lon e)
          else (case (ty = ''way'', center e) of
                  (True, Some c) \<Rightarrow> Inr (c_lat c, c_lon c)
                | _ \<Rightarrow> Inr (None, None)))"



fun prioritize_loop ::
  "element list \<Rightarrow> element list \<Rightarrow> element list \<Rightarrow> element list \<times> element list" where
  "prioritize_loop [] alpine_huts others = (alpine_huts, others)"
| "prioritize_loop (e # es) alpine_huts others =
     (if is_alpine_hut e then prioritize_loop es (alpine_huts @ [e]) others
      else prioritize_loop es alpine_huts (others @ [e]))"

definition prioritize_alpine_huts :: "element list \<Rightarrow> element list \<times> element list" where
  "prioritize_alpine_huts elements = prioritize_loop elements [] []"

text \<open>
  A coordinate resolves when \<open>get_coordinates\<close> returns a latitude and a longitude that
  are both present: a node's own pair, or the pair under a way's \<open>center\<close>.
\<close>

definition resolvable :: "element \<Rightarrow> bool" where
  "resolvable e =
     (case get_coordinates e of
        Inr (Some la, Some lo) \<Rightarrow> True
      | _ \<Rightarrow> False)"

section \<open>enrich.py\<close>

text \<open>
  The elevation provider (\<open>get_elevation\<close>) is the network boundary: it answers a
  coordinate with an elevation or with \<open>None\<close> (a request error or an answer without a
  result), and its answer may depend on the lookups made before. The world records every
  lookup issued and every \<open>time.sleep\<close>.
\<close>

record world =
  lookups :: "(pynum \<times> pynum) list"
  sleeps :: "rat list"

record enricher =
  get_elevation :: "(pynum \<times> pynum) list \<Rightarrow> pynum \<Rightarrow> pynum \<Rightarrow> pynum option"
  rate_limit :: rat

text \<open>
  \<open>enrich_element\<close>; \<open>str_round1 v\<close> stands for Python's \<open>str(round(v, 1))\<close>. The
  dictionary is updated in place and returned, or \<open>None\<close> is returned.
\<close>

definition enrich_element ::
  "(pynum \<Rightarrow> string) \<Rightarrow> enricher \<Rightarrow> element \<Rightarrow> world \<Rightarrow> error + (element option \<times> world)" where
  "enrich_element str_round1 self e w =
     (case etype e of
        None \<Rightarrow> Inl (KeyError ''type'')
      | Some ty \<Rightarrow>
          (case (if ty = ''node'' then Some (lat e, lon e)
                 else (case (ty = ''way'', center e) of
                         (True, Some c) \<Rightarrow> Some (c_lat c, c_lon c)
                       | _ \<Rightarrow> None)) of
             Some (Some la, Some lo) \<Rightarrow>
               (let elevation = get_elevation self (lookups w) la lo;
                    w1 = w\<lparr>lookups := lookups w @ [(la, lo)]\<rparr>;
                    e' = (case elevation of
                            None \<Rightarrow> e
                          | Some v \<Rightarrow>
                              e\<lparr>tags := Some ((case tags e of None \<Rightarrow> Map.empty | Some t \<Rightarrow> t)
                                              (''ele'' \<mapsto> str_round1 v, ''ele:source'' \<mapsto> ''SRTM'')),
                                elevation_fetched := Some v\<rparr>);
                    w2 = w1\<lparr>sleeps := sleeps w1 @ [rate_limit self]\<rparr>
                in Inr (Some e', w2))
           | _ \<Rightarrow> Inr (None, w)))"

text \<open>\<open>max_count and count >= max_count\<close>: \<open>None\<close> and \<open>0\<close> are both false in Python.\<close>

fun limit_reached :: "int option \<Rightarrow> int \<Rightarrow> bool" where
  "limit_reached None cnt = False"
| "limit_reached (Some m) cnt = (m \<noteq> 0 \<and> cnt \<ge> m)"

text \<open>
  The loop of \<open>enrich_elements\<close>. A returned element is a dictionary with at least the
  key \<open>type\<close>, so \<open>if enriched_element\<close> is false exactly for \<open>None\<close>.
\<close>

fun enrich_loop ::
  "(pynum \<Rightarrow> string) \<Rightarrow> enricher \<Rightarrow> int option \<Rightarrow> element list \<Rightarrow> element list \<Rightarrow> int \<Rightarrow> world
     \<Rightarrow> error + (element list \<times> world)" where
  "enrich_loop str_round1 self max_count [] enriched cnt w = Inr (enriched, w)"
| "enrich_loop str_round1 self max_count (e # es) enriched cnt w =
     (if limit_reached max_count cnt then Inr (enriched, w)
      else (case enrich_element str_round1 self e w of
              Inl err \<Rightarrow> Inl err
            | Inr (None, w') \<Rightarrow> enrich_loop str_round1 self max_count es enriched cnt w'
            | Inr (Some e', w') \<Rightarrow>
                enrich_loop str_round1 self max_count es (enriched @ [e']) (cnt + 1) w'))"

definition enrich_elements ::
  "(pynum \<Rightarrow> string) \<Rightarrow> enricher \<Rightarrow> element list \<Rightarrow> int option \<Rightarrow> world
     \<Rightarrow> error + (element list \<times> world)" where
  "enrich_elements str_round1 self elements max_count w =
     enrich_loop str_round1 self max_count elements [] 0 w"

text \<open>The coordinate pair an element resolves to, as a list of at most one pair.\<close>

definition coords_of :: "element \<Rightarrow> (pynum \<times> pynum) list" where
  "coords_of e =
     (case get_coordinates e of
        Inr (Some la, Some lo) \<Rightarrow> [(la, lo)]
      | _ \<Rightarrow> [])"

section \<open>validate.py\<close>

record validator =
  min_elevation :: pynum
  max_elevation :: pynum

record validation =
  valid :: bool
  element_id :: "int option"
  element_type :: "string option"
  elevation :: "pynum option"
  errors :: "string list"

text \<open>\<open>num_str v\<close> stands for the text an f-string puts for the number \<open>v\<close>.\<close>

definition validate_element :: "(pynum \<Rightarrow> string) \<Rightarrow> validator \<Rightarrow> element \<Rightarrow> validation" where
  "validate_element num_str self e =
     (let result = \<lparr>valid = False, element_id = eid e, element_type = etype e,
                    elevation = None, errors = []\<rparr>
      in case elevation_fetched e of
           None \<Rightarrow> result\<lparr>errors := errors result @ [''No elevation data'']\<rparr>
         | Some v \<Rightarrow>
             (let result = result\<lparr>elevation := Some v\<rparr>
              in if num_lt v (min_elevation self) then
                   result\<lparr>errors := errors result @
                     [''Elevation '' @ num_str v @ ''m below minimum '' @
                      num_str (min_elevation self) @ ''m'']\<rparr>
                 else if num_gt v (max_elevation self) then
                   result\<lparr>errors := errors result @
                     [''Elevation '' @ num_str v @ ''m above maximum '' @
                      num_str (max_elevation self) @ ''m'']\<rparr>
                 else result\<lparr>valid := True\<rparr>))"

record validated =
  valid_elements :: "element list"
  invalid :: "(element \<times> validation) list"

fun validate_loop ::
  "(pynum \<Rightarrow> string) \<Rightarrow> validator \<Rightarrow> element list \<Rightarrow> element list
     \<Rightarrow> (element \<times> validation) list \<Rightarrow> validated" where
  "validate_loop num_str self [] vs ivs = \<lparr>valid_elements = vs, invalid = ivs\<rparr>"
| "validate_loop num_str self (e # es) vs ivs =
     (let validation = validate_element num_str self e
      in if valid validation then validate_loop num_str self es (vs @ [e]) ivs
         else validate_loop num_str self es vs (ivs @ [(e, validation)]))"

definition validate_elements :: "(pynum \<Rightarrow> string) \<Rightarrow> validator \<Rightarrow> element list \<Rightarrow> validated" where
  "validate_elements num_str self elements = validate_loop num_str self elements [] []"

text \<open>
  \<open>validate_all\<close> over the items of the category dictionary, in order; a category with
  an empty list gets no entry.
\<close>

fun validate_all ::
  "(pynum \<Rightarrow> string) \<Rightarrow> validator \<Rightarrow> (string \<times> element list) list \<Rightarrow> (string \<times> validated) list" where
  "validate_all num_str self [] = []"
| "validate_all num_str self ((category, elements) # rest) =
     (if elements \<noteq> [] then
        (category, validate_elements num_str self elements) # validate_all num_str self rest
      else validate_all num_str self rest)"

section \<open>upload.py\<close>

record uploader =
  dry_run :: bool
  username :: "string option"
  password :: "string option"

text \<open>Python's truth value of a string that may be \<open>None\<close>.\<close>

fun truthy_str :: "string option \<Rightarrow> bool" where
  "truthy_str None = False"
| "truthy_str (Some s) = (s \<noteq> [])"

text \<open>The constructor: in live mode it raises \<open>ValueError\<close> without both credentials.\<close>

definition OSMUploader_init :: "string option \<Rightarrow> string option \<Rightarrow> bool \<Rightarrow> error + uploader" where
  "OSMUploader_init uname pwd dry =
     (if \<not> dry then
        (if \<not> truthy_str uname \<or> \<not> truthy_str pwd then
           Inl (ValueError ''Username and password required for actual upload'')
         else Inr \<lparr>dry_run = dry, username = uname, password = pwd\<rparr>)
      else Inr \<lparr>dry_run = dry, username = uname, password = pwd\<rparr>)"

text \<open>
  The store client (\<open>osmapi\<close>) is the other network boundary. Every call the uploader
  makes is recorded; a call either answers or raises, and the text of the exception is
  kept. The answers may depend on the calls made before.
\<close>

record osm_object =
  tag :: "tagmap option"

datatype api_call =
    NodeGet int
  | WayGet int
  | ChangesetCreate string string
  | NodeUpdate osm_object
  | WayUpdate osm_object
  | ChangesetClose

record store_client =
  fetch :: "api_call list \<Rightarrow> api_call \<Rightarrow> string + osm_object"
  perform :: "api_call list \<Rightarrow> api_call \<Rightarrow> string option"

text \<open>The \<open>try\<close> block of \<open>upload_element\<close>: every exception becomes a failure result.\<close>

definition upload_live ::
  "store_client \<Rightarrow> string \<Rightarrow> int \<Rightarrow> string \<Rightarrow> string \<Rightarrow> api_call list
     \<Rightarrow> (bool \<times> string) \<times> api_call list" where
  "upload_live api el_type el_id ele_value changeset_comment calls =
     (if el_type \<noteq> ''node'' \<and> el_type \<noteq> ''way'' then
        ((False, ''Unsupported element type: '' @ el_type), calls)
      else
        (let get = (if el_type = ''node'' then NodeGet el_id else WayGet el_id);
             calls1 = calls @ [get]
         in case fetch api calls get of
              Inl err \<Rightarrow> ((False, ''Error uploading: '' @ err), calls1)
            | Inr osm_element \<Rightarrow>
                (let tag0 = (case tag osm_element of None \<Rightarrow> Map.empty | Some t \<Rightarrow> t);
                     osm_element' =
                       osm_element\<lparr>tag := Some (tag0(''ele'' \<mapsto> ele_value, ''ele:source'' \<mapsto> ''SRTM''))\<rparr>;
                     create = ChangesetCreate changeset_comment ''elevate-romania script'';
                     calls2 = calls1 @ [create]
                 in case perform api calls1 create of
                      Some err \<Rightarrow> ((False, ''Error uploading: '' @ err), calls2)
                    | None \<Rightarrow>
                        (let update = (if el_type = ''node'' then NodeUpdate osm_element'
                                       else WayUpdate osm_element');
                             calls3 = calls2 @ [update]
                         in case perform api calls2 update of
                              Some err \<Rightarrow> ((False, ''Error uploading: '' @ err), calls3)
                            | None \<Rightarrow>
                                (let calls4 = calls3 @ [ChangesetClose]
                                 in case perform api calls3 ChangesetClose of
                                      Some err \<Rightarrow> ((False, ''Error uploading: '' @ err), calls4)
                                    | None \<Rightarrow> ((True, ''Upload successful''), calls4))))))"

text \<open>
  \<open>upload_element\<close>: \<open>not element_id\<close> holds for a missing id and for the id 0,
  \<open>not element_type\<close> for a missing type and for the empty string.
\<close>

definition upload_element ::
  "store_client \<Rightarrow> uploader \<Rightarrow> element \<Rightarrow> api_call list \<Rightarrow> (bool \<times> string) \<times> api_call list" where
  "upload_element api self e calls =
     (let tgs = (case tags e of None \<Rightarrow> Map.empty | Some t \<Rightarrow> t)
      in case (eid e, etype e) of
           (Some el_id, Some el_type) \<Rightarrow>
             if el_id = 0 \<or> el_type = [] then ((False, ''Missing element ID or type''), calls)
             else (case (tgs ''ele'', tgs ''ele:source'') of
                     (Some ele_value, Some src) \<Rightarrow>
                       if dry_run self then ((True, ''Dry-run successful''), calls)
                       else upload_live api el_type el_id ele_value ''Add elevation data'' calls
                   | _ \<Rightarrow> ((False, ''Missing elevation data in tags''), calls))
         | _ \<Rightarrow> ((False, ''Missing element ID or type''), calls))"

record stats =
  total :: nat
  successful :: nat
  failed :: nat
  upload_errors :: "(int option \<times> string) list"

fun upload_loop ::
  "store_client \<Rightarrow> uploader \<Rightarrow> element list \<Rightarrow> stats \<Rightarrow> api_call list \<Rightarrow> stats \<times> api_call list" where
  "upload_loop api self [] st calls = (st, calls)"
| "upload_loop api self (e # es) st calls =
     (case upload_element api self e calls of
        ((success, message), calls') \<Rightarrow>
          upload_loop api self es
            (if success then st\<lparr>successful := successful st + 1\<rparr>
             else st\<lparr>failed := failed st + 1,
                     upload_errors := upload_errors st @ [(eid e, message)]\<rparr>)
            calls')"

definition upload_elements ::
  "store_client \<Rightarrow> uploader \<Rightarrow> element list \<Rightarrow> api_call list \<Rightarrow> stats \<times> api_call list" where
  "upload_elements api self elements calls =
     upload_loop api self elements
       \<lparr>total = length elements, successful = 0, failed = 0, upload_errors = []\<rparr> calls"

fun upload_all ::
  "store_client \<Rightarrow> uploader \<Rightarrow> (string \<times> element list) list \<Rightarrow> api_call list
     \<Rightarrow> (string \<times> stats) list \<times> api_call list" where
  "upload_all api self [] calls = ([], calls)"
| "upload_all api self ((category, elements) # rest) calls =
     (if elements \<noteq> [] then
        (case upload_elements api self elements calls of
           (st, calls') \<Rightarrow>
             (case upload_all api self rest calls' of
                (all_stats, calls'') \<Rightarrow> ((category, st) # all_stats, calls'')))
      else upload_all api self rest calls)"

text \<open>
  The result of \<open>upload_element\<close> for each element of a list in turn, each call starting
  from the calls the ones before have made.
\<close>

fun upload_results ::
  "store_client \<Rightarrow> uploader \<Rightarrow> element list \<Rightarrow> api_call list \<Rightarrow> (element \<times> bool \<times> string) list" where
  "upload_results api self [] calls = []"
| "upload_results api self (e # es) calls =
     (case upload_element api self e calls of
        ((success, message), calls') \<Rightarrow> (e, success, message) # upload_results api self es calls')"

section \<open>main.py: the upload stage\<close>

record args =
  arg_all :: bool
  arg_upload :: bool
  arg_dry_run :: bool
  arg_username :: "string option"
  arg_password :: "string option"

datatype upload_report =
    Not_Requested
  | Configuration_Error_Reported
  | Snapshot_Missing
  | Construction_Failed error
  | Uploaded uploader "(string \<times> stats) list"

text \<open>
  \<open>run_upload\<close>: the snapshot of validated data is \<open>None\<close> when the file is missing,
  otherwise the \<open>valid_elements\<close> of each category. An exception of the constructor
  leaves \<open>run_upload\<close> and is caught and printed by \<open>main\<close>.
\<close>

definition run_upload ::
  "store_client \<Rightarrow> (string \<times> element list) list option \<Rightarrow> bool \<Rightarrow> string option \<Rightarrow> string option
     \<Rightarrow> api_call list \<Rightarrow> upload_report \<times> api_call list" where
  "run_upload api snapshot dry uname pwd calls =
     (case snapshot of
        None \<Rightarrow> (Snapshot_Missing, calls)
      | Some valid_data \<Rightarrow>
          (case OSMUploader_init uname pwd dry of
             Inl err \<Rightarrow> (Construction_Failed err, calls)
           | Inr up \<Rightarrow>
               (case upload_all api up valid_data calls of
                  (all_stats, calls') \<Rightarrow> (Uploaded up all_stats, calls'))))"

text \<open>The block of \<open>main\<close> under \<open>if args.all or args.upload\<close>.\<close>

definition main_upload ::
  "store_client \<Rightarrow> (string \<times> element list) list option \<Rightarrow> args \<Rightarrow> api_call list
     \<Rightarrow> upload_report \<times> api_call list" where
  "main_upload api snapshot a calls =
     (if arg_all a \<or> arg_upload a then
        (let dry = (if arg_dry_run a then arg_dry_run a else True)
         in if \<not> dry \<and> \<not> truthy_str (arg_username a) then (Configuration_Error_Reported, calls)
            else run_upload api snapshot dry (arg_username a) (arg_password a) calls)
      else (Not_Requested, calls))"

section \<open>Notions used to state the properties\<close>

text \<open>\<open>element.get("tags", {}).get(k)\<close>: the value of a tag, if the element has it.\<close>

definition tag_value :: "element \<Rightarrow> string \<Rightarrow> string option" where
  "tag_value e k = (case tags e of None \<Rightarrow> None | Some t \<Rightarrow> t k)"

text \<open>
  An attempted enrichment of \<open>e\<close>: the element itself (the lookup gave nothing), or the
  element with the two tags and the fetched elevation written for some value.
\<close>

definition attempted :: "(pynum \<Rightarrow> string) \<Rightarrow> element \<Rightarrow> element \<Rightarrow> bool" where
  "attempted str_round1 e e' =
     (e' = e \<or>
      (\<exists>v. e' = e\<lparr>tags := Some ((case tags e of None \<Rightarrow> Map.empty | Some t \<Rightarrow> t)
                                  (''ele'' \<mapsto> str_round1 v, ''ele:source'' \<mapsto> ''SRTM'')),
                    elevation_fetched := Some v\<rparr>))"

section \<open>Scenario data\<close>

text \<open>
  The elements of the scenarios: a station at (45.50, 25.45), a station that already has
  an elevation, an alpine hut, a hotel, a guest house mapped as a way with a centre, a way
  without a centre, and a fully tagged node whose id is 0.
\<close>

definition station :: element where
  "station = \<lparr>etype = Some ''node'', eid = Some 1, lat = Some (PyFloat (91 / 2)),
     lon = Some (PyFloat (509 / 20)), center = None,
     tags = Some [''railway'' \<mapsto> ''station''], elevation_fetched = None\<rparr>"


definition hut :: element where
  "hut = \<lparr>etype = Some ''node'', eid = Some 2000001, lat = Some (PyFloat (454167 / 10000)),
     lon = Some (PyFloat (509 / 20)), center = None,
     tags = Some [''tourism'' \<mapsto> ''alpine_hut''], elevation_fetched = None\<rparr>"

definition hotel :: element where
  "hotel = \<lparr>etype = Some ''node'', eid = Some 2000002, lat = Some (PyFloat (111067 / 2500)),
     lon = Some (PyFloat (10441 / 400)), center = None,
     tags = Some [''tourism'' \<mapsto> ''hotel''], elevation_fetched = None\<rparr>"


definition bare_way :: element where
  "bare_way = \<lparr>etype = Some ''way'', eid = Some 3, lat = None, lon = None, center = None,
     tags = Some [''tourism'' \<mapsto> ''hotel''], elevation_fetched = None\<rparr>"

definition zero_id_node :: element where
  "zero_id_node = \<lparr>etype = Some ''node'', eid = Some 0, lat = Some (PyFloat (91 / 2)),
     lon = Some (PyFloat (509 / 20)), center = None,
     tags = Some [''ele'' \<mapsto> ''850.3'', ''ele:source'' \<mapsto> ''SRTM''],
     elevation_fetched = Some (PyFloat (8503 / 10))\<rparr>"

text \<open>The station after an enrichment with the elevation 850.3.\<close>

definition enriched_station :: element where
  "enriched_station =
     station\<lparr>tags := Some [''railway'' \<mapsto> ''station'', ''ele'' \<mapsto> ''850.3'', ''ele:source'' \<mapsto> ''SRTM''],
             elevation_fetched := Some (PyFloat (8503 / 10))\<rparr>"

text \<open>The alpine hut after an enrichment with the elevation 850.3.\<close>

definition enriched_hut :: element where
  "enriched_hut =
     hut\<lparr>tags := Some [''tourism'' \<mapsto> ''alpine_hut'', ''ele'' \<mapsto> ''850.3'', ''ele:source'' \<mapsto> ''SRTM''],
         elevation_fetched := Some (PyFloat (8503 / 10))\<rparr>"

text \<open>The text of the numbers that occur in the scenarios.\<close>

definition scenario_str :: "pynum \<Rightarrow> string" where
  "scenario_str v =
     (if v = PyFloat (8503 / 10) then ''850.3''
      else if v = PyInt 3000 then ''3000''
      else if v = PyInt 2600 then ''2600''
      else if v = PyInt 0 then ''0''
      else ''-1'')"

text \<open>A provider that answers every lookup with the same result, and a store that accepts every call.\<close>

definition constant_provider :: "pynum option \<Rightarrow> enricher" where
  "constant_provider r = \<lparr>get_elevation = (\<lambda>h la lo. r), rate_limit = 1\<rparr>"

definition accepting_store :: store_client where
  "accepting_store = \<lparr>fetch = (\<lambda>h c. Inr \<lparr>tag = None\<rparr>), perform = (\<lambda>h c. None)\<rparr>"

definition world0 :: world where
  "world0 = \<lparr>lookups = [], sleeps = []\<rparr>"

definition romania :: validator where
  "romania = \<lparr>min_elevation = PyInt 0, max_elevation = PyInt 2600\<rparr>"

definition dry_uploader :: uploader where
  "dry_uploader = \<lparr>dry_run = True, username = None, password = None\<rparr>"

section \<open>Filter: properties\<close>


lemma resolvable_iff:
  "resolvable e \<longleftrightarrow>
     (etype e = Some ''node'' \<and> lat e \<noteq> None \<and> lon e \<noteq> None)
   \<or> (etype e = Some ''way'' \<and> (\<exists>c. center e = Some c \<and> c_lat c \<noteq> None \<and> c_lon c \<noteq> None))"
  by (auto simp: resolvable_def get_coordinates_def split: option.splits bool.splits)

lemma get_coordinates_typed:
  "etype e \<noteq> None \<Longrightarrow> \<exists>a b. get_coordinates e = Inr (a, b)"
  by (auto simp: get_coordinates_def split: option.splits bool.splits)




lemma prioritize_loop_filter:
  "prioritize_loop es hs os =
     (hs @ filter is_alpine_hut es, os @ filter (\<lambda>e. \<not> is_alpine_hut e) es)"
  by (induction es arbitrary: hs os) simp_all

lemma is_alpine_hut_iff: "is_alpine_hut e \<longleftrightarrow> tag_value e ''tourism'' = Some ''alpine_hut''"
  by (simp add: is_alpine_hut_def tag_value_def split: option.splits)

text \<open>
  C7. \<open>prioritize_alpine_huts\<close> is a stable partition by the predicate
  \<open>tags.tourism == "alpine_hut"\<close>: the first output is the input filtered by the
  predicate, the second the input filtered by its negation (so the input order is kept
  in each), the two outputs together hold every input element as often as the input
  does, and no element is in both.
\<close>

theorem prioritize_stable_partition:
  "prioritize_alpine_huts es =
     (filter (\<lambda>e. tag_value e ''tourism'' = Some ''alpine_hut'') es,
      filter (\<lambda>e. tag_value e ''tourism'' \<noteq> Some ''alpine_hut'') es)
   \<and> mset (fst (prioritize_alpine_huts es)) + mset (snd (prioritize_alpine_huts es)) = mset es
   \<and> set (fst (prioritize_alpine_huts es)) \<inter> set (snd (prioritize_alpine_huts es)) = {}"
proof -
  have p: "is_alpine_hut = (\<lambda>e. tag_value e ''tourism'' = Some ''alpine_hut'')"
    by (rule ext) (simp add: is_alpine_hut_iff)
  show ?thesis
    by (auto simp: prioritize_alpine_huts_def prioritize_loop_filter p)
qed

section \<open>Validator: properties\<close>

text \<open>
  C4. For bounds with \<open>min \<le> max\<close>: without \<open>elevation_fetched\<close> the outcome is invalid
  with the single reason "No elevation data"; with a value strictly below the minimum it
  is invalid with the single below-minimum reason, which carries the value and the bound;
  strictly above the maximum, invalid with the single above-maximum reason; otherwise
  valid without a reason, in particular at a value equal to the minimum or the maximum.
  A valid outcome carries no reason, an invalid one exactly one.
\<close>

theorem validate_element_outcome:
  assumes "num_val (min_elevation self) \<le> num_val (max_elevation self)"
  shows "(elevation_fetched e = None \<longrightarrow>
            \<not> valid (validate_element num_str self e)
          \<and> errors (validate_element num_str self e) = [''No elevation data''])
       \<and> (\<forall>v. elevation_fetched e = Some v \<longrightarrow>
            (num_val v < num_val (min_elevation self) \<longrightarrow>
               \<not> valid (validate_element num_str self e)
             \<and> errors (validate_element num_str self e) =
                 [''Elevation '' @ num_str v @ ''m below minimum '' @
                  num_str (min_elevation self) @ ''m''])
          \<and> (num_val (max_elevation self) < num_val v \<longrightarrow>
               \<not> valid (validate_element num_str self e)
             \<and> errors (validate_element num_str self e) =
                 [''Elevation '' @ num_str v @ ''m above maximum '' @
                  num_str (max_elevation self) @ ''m''])
          \<and> (num_val (min_elevation self) \<le> num_val v
                \<and> num_val v \<le> num_val (max_elevation self) \<longrightarrow>
               valid (validate_element num_str self e)
             \<and> errors (validate_element num_str self e) = [])
          \<and> (num_val v = num_val (min_elevation self)
                \<or> num_val v = num_val (max_elevation self) \<longrightarrow>
               valid (validate_element num_str self e)))
       \<and> (valid (validate_element num_str self e) \<longrightarrow>
            errors (validate_element num_str self e) = [])
       \<and> (\<not> valid (validate_element num_str self e) \<longrightarrow>
            length (errors (validate_element num_str self e)) = 1)
       \<and> length (errors (validate_element num_str self e)) \<le> 1"
  using assms
  by (cases "elevation_fetched e") (auto simp: validate_element_def num_lt_def num_gt_def Let_def)

theorem validate_element_scenario:
  "num_val (min_elevation romania) \<le> num_val (max_elevation romania)
   \<and> elevation_fetched (station\<lparr>elevation_fetched := Some (PyInt 3000)\<rparr>) = Some (PyInt 3000)
   \<and> num_val (max_elevation romania) < num_val (PyInt 3000)
   \<and> \<not> valid (validate_element scenario_str romania (station\<lparr>elevation_fetched := Some (PyInt 3000)\<rparr>))
   \<and> errors (validate_element scenario_str romania (station\<lparr>elevation_fetched := Some (PyInt 3000)\<rparr>)) =
       [''Elevation 3000m above maximum 2600m'']"
  using validate_element_outcome
    [of romania "station\<lparr>elevation_fetched := Some (PyInt 3000)\<rparr>" scenario_str]
  by (simp add: romania_def scenario_str_def)

lemma validate_loop_filter:
  "validate_loop f s es vs ivs =
     \<lparr>valid_elements = vs @ filter (\<lambda>e. valid (validate_element f s e)) es,
      invalid = ivs @ map (\<lambda>e. (e, validate_element f s e))
                        (filter (\<lambda>e. \<not> valid (validate_element f s e)) es)\<rparr>"
  by (induction es arbitrary: vs ivs) (simp_all add: Let_def)

lemma validate_elements_filter:
  "validate_elements f s es =
     \<lparr>valid_elements = filter (\<lambda>e. valid (validate_element f s e)) es,
      invalid = map (\<lambda>e. (e, validate_element f s e))
                  (filter (\<lambda>e. \<not> valid (validate_element f s e)) es)\<rparr>"
  by (simp add: validate_elements_def validate_loop_filter)

text \<open>
  Over the categories: validating again the \<open>valid_elements\<close> of every category gives,
  for each category that had a valid element, the same valid list and no invalid entry.
\<close>

lemma validate_all_rerun:
  "validate_all f s (map (\<lambda>(c, r). (c, valid_elements r)) (validate_all f s data)) =
     map (\<lambda>(c, r). (c, r\<lparr>invalid := []\<rparr>))
       (filter (\<lambda>(c, r). valid_elements r \<noteq> []) (validate_all f s data))"
proof (induction data)
  case Nil
  then show ?case by simp
next
  case (Cons p data)
  obtain c es where p: "p = (c, es)" by (cases p)
  show ?case using Cons
    by (simp add: p validate_elements_filter)
qed

text \<open>
  C8. Validating, with the same bounds, the valid elements that a validation produced
  classifies each of them valid again: the valid list is the same and there is no invalid
  entry.
\<close>

theorem validate_elements_idempotent:
  "validate_elements num_str self (valid_elements (validate_elements num_str self es)) =
     \<lparr>valid_elements = valid_elements (validate_elements num_str self es), invalid = []\<rparr>"
  by (simp add: validate_elements_filter)

section \<open>Enricher: properties\<close>

text \<open>
  \<open>enrich_element\<close> resolves the coordinate as \<open>get_coordinates\<close> of the filter does.
\<close>

lemma enrich_element_by_coordinates:
  "enrich_element r s e w =
     (case get_coordinates e of
        Inl err \<Rightarrow> Inl err
      | Inr (Some la, Some lo) \<Rightarrow>
          Inr (Some (case get_elevation s (lookups w) la lo of
                       None \<Rightarrow> e
                     | Some v \<Rightarrow>
                         e\<lparr>tags := Some ((case tags e of None \<Rightarrow> Map.empty | Some t \<Rightarrow> t)
                                         (''ele'' \<mapsto> r v, ''ele:source'' \<mapsto> ''SRTM'')),
                           elevation_fetched := Some v\<rparr>),
               w\<lparr>lookups := lookups w @ [(la, lo)], sleeps := sleeps w @ [rate_limit s]\<rparr>)
      | Inr _ \<Rightarrow> Inr (None, w))"
  by (simp add: enrich_element_def get_coordinates_def Let_def
           split: option.splits bool.splits)

lemma enrich_element_resolved:
  assumes "get_coordinates e = Inr (Some la, Some lo)"
  shows "enrich_element r s e w =
           Inr (Some (case get_elevation s (lookups w) la lo of
                        None \<Rightarrow> e
                      | Some v \<Rightarrow>
                          e\<lparr>tags := Some ((case tags e of None \<Rightarrow> Map.empty | Some t \<Rightarrow> t)
                                          (''ele'' \<mapsto> r v, ''ele:source'' \<mapsto> ''SRTM'')),
                            elevation_fetched := Some v\<rparr>),
                w\<lparr>lookups := lookups w @ [(la, lo)], sleeps := sleeps w @ [rate_limit s]\<rparr>)"
  by (simp add: enrich_element_by_coordinates assms)

lemma enrich_element_unresolvable:
  assumes "etype e \<noteq> None" "\<not> resolvable e"
  shows "enrich_element r s e w = Inr (None, w)"
proof -
  obtain a b where ab: "get_coordinates e = Inr (a, b)"
    using get_coordinates_typed [OF assms(1)] by blast
  with assms(2) have "a = None \<or> b = None"
    by (cases a; cases b) (simp_all add: resolvable_def)
  then show ?thesis
    by (cases a; cases b) (simp_all add: enrich_element_by_coordinates ab)
qed

lemma resolvable_coordinates:
  assumes "resolvable e"
  shows "\<exists>la lo. get_coordinates e = Inr (Some la, Some lo)"
proof (cases "get_coordinates e")
  case (Inl err)
  with assms show ?thesis by (simp add: resolvable_def)
next
  case (Inr p)
  obtain a b where "p = (a, b)" by (cases p)
  with Inr assms show ?thesis
    by (cases a; cases b) (simp_all add: resolvable_def)
qed

text \<open>
  C3. When the coordinate of the element resolves to \<open>(la, lo)\<close>, \<open>enrich_element\<close>
  returns an element and issues exactly one lookup, for \<open>(la, lo)\<close>, followed by one
  sleep. If the provider answers \<open>v\<close>, the returned element has the tag \<open>ele\<close> with the
  text of \<open>v\<close> rounded to one decimal, the tag \<open>ele:source\<close> with \<open>SRTM\<close>, and
  \<open>elevation_fetched = v\<close>; if it answers nothing, the returned element is the given one.
  When the element has a type and no coordinate resolves, the result is \<open>None\<close> and no
  lookup is made.
\<close>

theorem enrich_element_spec:
  "(\<forall>la lo. get_coordinates e = Inr (Some la, Some lo) \<longrightarrow>
      (\<exists>e'. enrich_element str_round1 self e w =
               Inr (Some e', w\<lparr>lookups := lookups w @ [(la, lo)],
                                sleeps := sleeps w @ [rate_limit self]\<rparr>)
           \<and> (\<forall>v. get_elevation self (lookups w) la lo = Some v \<longrightarrow>
                  tag_value e' ''ele'' = Some (str_round1 v)
                \<and> tag_value e' ''ele:source'' = Some ''SRTM''
                \<and> elevation_fetched e' = Some v)
           \<and> (get_elevation self (lookups w) la lo = None \<longrightarrow> e' = e)))
   \<and> (etype e \<noteq> None \<and> \<not> resolvable e \<longrightarrow>
        enrich_element str_round1 self e w = Inr (None, w))"
proof (intro conjI allI impI)
  fix la lo
  assume c: "get_coordinates e = Inr (Some la, Some lo)"
  show "\<exists>e'. enrich_element str_round1 self e w =
               Inr (Some e', w\<lparr>lookups := lookups w @ [(la, lo)],
                                sleeps := sleeps w @ [rate_limit self]\<rparr>)
           \<and> (\<forall>v. get_elevation self (lookups w) la lo = Some v \<longrightarrow>
                  tag_value e' ''ele'' = Some (str_round1 v)
                \<and> tag_value e' ''ele:source'' = Some ''SRTM''
                \<and> elevation_fetched e' = Some v)
           \<and> (get_elevation self (lookups w) la lo = None \<longrightarrow> e' = e)"
    by (cases "get_elevation self (lookups w) la lo")
       (simp_all add: enrich_element_resolved [OF c] tag_value_def)
next
  assume "etype e \<noteq> None \<and> \<not> resolvable e"
  then show "enrich_element str_round1 self e w = Inr (None, w)"
    using enrich_element_unresolvable by blast
qed

lemma enrich_element_resolvable:
  assumes "resolvable e"
  shows "\<exists>e' w'. enrich_element r s e w = Inr (Some e', w') \<and> attempted r e e'
           \<and> lookups w' = lookups w @ coords_of e \<and> sleeps w' = sleeps w @ [rate_limit s]"
proof -
  obtain la lo where c: "get_coordinates e = Inr (Some la, Some lo)"
    using resolvable_coordinates [OF assms] by blast
  let ?e' = "case get_elevation s (lookups w) la lo of
               None \<Rightarrow> e
             | Some v \<Rightarrow>
                 e\<lparr>tags := Some ((case tags e of None \<Rightarrow> Map.empty | Some t \<Rightarrow> t)
                                 (''ele'' \<mapsto> r v, ''ele:source'' \<mapsto> ''SRTM'')),
                   elevation_fetched := Some v\<rparr>"
  let ?w' = "w\<lparr>lookups := lookups w @ [(la, lo)], sleeps := sleeps w @ [rate_limit s]\<rparr>"
  have "enrich_element r s e w = Inr (Some ?e', ?w')"
    by (rule enrich_element_resolved [OF c])
  moreover have "attempted r e ?e'"
    by (cases "get_elevation s (lookups w) la lo") (auto simp: attempted_def)
  moreover have "lookups ?w' = lookups w @ coords_of e"
    by (simp add: coords_of_def c)
  moreover have "sleeps ?w' = sleeps w @ [rate_limit s]"
    by simp
  ultimately show ?thesis by blast
qed

text \<open>Without a limit, a list of resolvable elements gives one output for each element.\<close>

lemma enrich_loop_unlimited:
  assumes "\<forall>e\<in>set rs. resolvable e"
  shows "\<exists>out w'. enrich_loop r s None rs acc c w = Inr (acc @ out, w')
           \<and> list_all2 (attempted r) rs out
           \<and> lookups w' = lookups w @ concat (map coords_of rs)
           \<and> sleeps w' = sleeps w @ replicate (length rs) (rate_limit s)"
  using assms
proof (induction rs arbitrary: acc c w)
  case Nil
  then show ?case by simp
next
  case (Cons e rs)
  then have "resolvable e" by simp
  then obtain e' w1 where
    step: "enrich_element r s e w = Inr (Some e', w1)" and att: "attempted r e e'" and
    lk: "lookups w1 = lookups w @ coords_of e" and sl: "sleeps w1 = sleeps w @ [rate_limit s]"
    using enrich_element_resolvable by blast
  from Cons have "\<forall>e\<in>set rs. resolvable e" by simp
  from Cons.IH [OF this, of "acc @ [e']" "c + 1" w1]
  obtain out w' where
    run: "enrich_loop r s None rs (acc @ [e']) (c + 1) w1 = Inr ((acc @ [e']) @ out, w')" and
    rel: "list_all2 (attempted r) rs out" and
    lk': "lookups w' = lookups w1 @ concat (map coords_of rs)" and
    sl': "sleeps w' = sleeps w1 @ replicate (length rs) (rate_limit s)"
    by blast
  have "enrich_loop r s None (e # rs) acc c w = Inr (acc @ (e' # out), w')"
    by (simp add: step run)
  moreover have "list_all2 (attempted r) (e # rs) (e' # out)"
    using att rel by simp
  moreover have "lookups w' = lookups w @ concat (map coords_of (e # rs))"
    by (simp add: lk lk')
  moreover have "sleeps w' = sleeps w @ replicate (length (e # rs)) (rate_limit s)"
    by (simp add: sl sl' replicate_app_Cons_same)
  ultimately show ?case by blast
qed

text \<open>
  With a positive limit the loop does what the loop without a limit does on the first
  \<open>n - c\<close> resolvable elements, where \<open>c\<close> outputs have been counted so far.
\<close>

lemma enrich_loop_limited:
  assumes "0 < n" "c \<le> n" "\<forall>e\<in>set es. etype e \<noteq> None"
  shows "enrich_loop r s (Some n) es acc c w =
           enrich_loop r s None (take (nat (n - c)) (filter resolvable es)) acc c w"
  using assms
proof (induction es arbitrary: acc c w)
  case Nil
  then show ?case by simp
next
  case (Cons e es)
  show ?case
  proof (cases "c = n")
    case True
    with Cons.prems show ?thesis by simp
  next
    case False
    with Cons.prems have lt: "c < n" by simp
    then have nl: "\<not> limit_reached (Some n) c" "\<not> limit_reached None c" by simp_all
    from Cons.prems have ty: "etype e \<noteq> None" and rest: "\<forall>e\<in>set es. etype e \<noteq> None"
      by simp_all
    show ?thesis
    proof (cases "resolvable e")
      case True
      then obtain e' w1 where step: "enrich_element r s e w = Inr (Some e', w1)"
        using enrich_element_resolvable by blast
      have tk: "take (nat (n - c)) (e # filter resolvable es) =
                  e # take (nat (n - (c + 1))) (filter resolvable es)"
      proof -
        have "nat (n - c) = Suc (nat (n - (c + 1)))" using lt by simp
        then show ?thesis by simp
      qed
      have "c + 1 \<le> n" using lt by simp
      from Cons.IH [OF \<open>0 < n\<close> this rest, of "acc @ [e']" w1]
      show ?thesis using True nl lt by (simp add: step tk del: limit_reached.simps)
    next
      case False
      have step: "enrich_element r s e w = Inr (None, w)"
        using enrich_element_unresolvable [OF ty False] .
      from Cons.IH [OF \<open>0 < n\<close> \<open>c \<le> n\<close> rest, of acc w]
      show ?thesis using False nl by (simp add: step del: limit_reached.simps)
    qed
  qed
qed

text \<open>
  C5 (as amended). For a positive \<open>max_count = n\<close> and elements that all carry their
  type, \<open>enrich_elements\<close> does what the run without a limit does on the first \<open>n\<close>
  elements, in input order, whose coordinate resolves. It returns one output for each of
  those (the element itself after a failed lookup, or the element with its elevation
  written), so \<open>min n k\<close> outputs when \<open>k\<close> elements resolve, and it issues the lookups of
  those elements only. An element without a resolvable coordinate gives no output and is
  not counted.
\<close>

theorem enrich_elements_limit:
  assumes "0 < n" and "\<forall>e\<in>set es. etype e \<noteq> None"
  shows "enrich_elements str_round1 self es (Some n) w =
           enrich_elements str_round1 self (take (nat n) (filter resolvable es)) None w
       \<and> (\<exists>out w'. enrich_elements str_round1 self es (Some n) w = Inr (out, w')
             \<and> list_all2 (attempted str_round1) (take (nat n) (filter resolvable es)) out
             \<and> length out = min (nat n) (length (filter resolvable es))
             \<and> lookups w' =
                 lookups w @ concat (map coords_of (take (nat n) (filter resolvable es)))
             \<and> sleeps w' = sleeps w @ replicate (length out) (rate_limit self))"
proof -
  let ?rs = "take (nat n) (filter resolvable es)"
  have eq: "enrich_elements str_round1 self es (Some n) w =
              enrich_elements str_round1 self ?rs None w"
    using enrich_loop_limited [OF assms(1) _ assms(2), of 0 str_round1 self "[]" w] assms(1)
    by (simp add: enrich_elements_def)
  have "\<forall>e\<in>set ?rs. resolvable e"
    by (auto dest: in_set_takeD)
  from enrich_loop_unlimited [OF this, of str_round1 self "[]" 0 w]
  obtain out w' where
    run: "enrich_loop str_round1 self None ?rs [] 0 w = Inr (out, w')" and
    rel: "list_all2 (attempted str_round1) ?rs out" and
    lk: "lookups w' = lookups w @ concat (map coords_of ?rs)" and
    sl: "sleeps w' = sleeps w @ replicate (length ?rs) (rate_limit self)"
    by auto
  have len: "length out = min (nat n) (length (filter resolvable es))"
    using list_all2_lengthD [OF rel] by simp
  have "enrich_elements str_round1 self es (Some n) w = Inr (out, w')"
    using eq run by (simp add: enrich_elements_def)
  moreover have "sleeps w' = sleeps w @ replicate (length out) (rate_limit self)"
    using sl list_all2_lengthD [OF rel] by simp
  ultimately show ?thesis using eq rel len lk by blast
qed

lemma enrich_loop_zero_limit:
  "enrich_loop r s (Some 0) es acc c w = enrich_loop r s None es acc c w"
proof (induction es arbitrary: acc c w)
  case Nil
  then show ?case by simp
next
  case (Cons e es)
  show ?case
  proof (cases "enrich_element r s e w")
    case (Inl err)
    then show ?thesis by simp
  next
    case (Inr p)
    obtain oe w1 where "p = (oe, w1)" by (cases p)
    with Inr Cons show ?thesis by (cases oe) simp_all
  qed
qed

text \<open>Without a limit, an element that has a type and no coordinate is passed over.\<close>

lemma enrich_loop_skips_unresolvable:
  assumes "\<forall>e\<in>set es. etype e \<noteq> None"
  shows "enrich_loop r s None es acc c w = enrich_loop r s None (filter resolvable es) acc c w"
  using assms
proof (induction es arbitrary: acc c w)
  case Nil
  then show ?case by simp
next
  case (Cons e es)
  from Cons.prems have ty: "etype e \<noteq> None" and rest: "\<forall>e\<in>set es. etype e \<noteq> None"
    by simp_all
  show ?case
  proof (cases "resolvable e")
    case True
    then obtain e' w1 where step: "enrich_element r s e w = Inr (Some e', w1)"
      using enrich_element_resolvable by blast
    from Cons.IH [OF rest, of "acc @ [e']" "c + 1" w1]
    show ?thesis using True by (simp add: step)
  next
    case False
    have step: "enrich_element r s e w = Inr (None, w)"
      using enrich_element_unresolvable [OF ty False] .
    from Cons.IH [OF rest, of acc c w]
    show ?thesis using False by (simp add: step)
  qed
qed

text \<open>
  C10. With \<open>max_count = 0\<close>, \<open>enrich_elements\<close> returns what it returns without a
  limit, on every list and in every world, errors included. It does not stop at once:
  on a list of elements that carry their type it returns one output for every element
  whose coordinate resolves (the element itself after a failed lookup, or the element
  with its elevation written), in input order, and it issues the lookup and the sleep of
  every such element.
\<close>

theorem enrich_elements_zero_limit:
  "enrich_elements str_round1 self es (Some 0) w = enrich_elements str_round1 self es None w
   \<and> ((\<forall>e\<in>set es. etype e \<noteq> None) \<longrightarrow>
        (\<exists>out w'. enrich_elements str_round1 self es (Some 0) w = Inr (out, w')
           \<and> list_all2 (attempted str_round1) (filter resolvable es) out
           \<and> length out = length (filter resolvable es)
           \<and> lookups w' = lookups w @ concat (map coords_of (filter resolvable es))
           \<and> sleeps w' =
               sleeps w @ replicate (length (filter resolvable es)) (rate_limit self)))"
proof (intro conjI impI)
  show eq: "enrich_elements str_round1 self es (Some 0) w =
              enrich_elements str_round1 self es None w"
    by (simp add: enrich_elements_def enrich_loop_zero_limit)
  assume ty: "\<forall>e\<in>set es. etype e \<noteq> None"
  let ?rs = "filter resolvable es"
  have "\<forall>e\<in>set ?rs. resolvable e" by simp
  from enrich_loop_unlimited [OF this, of str_round1 self "[]" 0 w]
  obtain out w' where
    run: "enrich_loop str_round1 self None ?rs [] 0 w = Inr (out, w')" and
    rel: "list_all2 (attempted str_round1) ?rs out" and
    lk: "lookups w' = lookups w @ concat (map coords_of ?rs)" and
    sl: "sleeps w' = sleeps w @ replicate (length ?rs) (rate_limit self)"
    by auto
  have "enrich_elements str_round1 self es (Some 0) w = Inr (out, w')"
    using eq run enrich_loop_skips_unresolvable [OF ty, of str_round1 self "[]" 0 w]
    by (simp add: enrich_elements_def)
  moreover have "length out = length ?rs"
    using list_all2_lengthD [OF rel] by simp
  ultimately show "\<exists>out w'. enrich_elements str_round1 self es (Some 0) w = Inr (out, w')
           \<and> list_all2 (attempted str_round1) (filter resolvable es) out
           \<and> length out = length (filter resolvable es)
           \<and> lookups w' = lookups w @ concat (map coords_of (filter resolvable es))
           \<and> sleeps w' =
               sleeps w @ replicate (length (filter resolvable es)) (rate_limit self)"
    using rel lk sl by blast
qed

lemma enrich_station:
  "enrich_element scenario_str (constant_provider (Some (PyFloat (8503 / 10)))) station world0 =
     Inr (Some enriched_station,
          \<lparr>lookups = [(PyFloat (91 / 2), PyFloat (509 / 20))], sleeps = [1]\<rparr>)"
  by (simp add: enrich_element_def constant_provider_def station_def enriched_station_def
        world0_def scenario_str_def)

lemma enrich_bare_way:
  "enrich_element r s bare_way w = Inr (None, w)"
  by (simp add: enrich_element_def bare_way_def)

lemma enrich_hut:
  "enrich_element scenario_str (constant_provider (Some (PyFloat (8503 / 10)))) hut w =
     Inr (Some enriched_hut,
          w\<lparr>lookups := lookups w @ [(PyFloat (454167 / 10000), PyFloat (509 / 20))],
            sleeps := sleeps w @ [1]\<rparr>)"
  by (simp add: enrich_element_def constant_provider_def hut_def enriched_hut_def
        scenario_str_def)

theorem enrich_elements_zero_limit_scenario:
  "etype station \<noteq> None \<and> etype bare_way \<noteq> None \<and> etype hut \<noteq> None
   \<and> filter resolvable [station, bare_way, hut] = [station, hut]
   \<and> enrich_elements scenario_str (constant_provider (Some (PyFloat (8503 / 10))))
        [station, bare_way, hut] None world0 =
       Inr ([enriched_station, enriched_hut],
            \<lparr>lookups = [(PyFloat (91 / 2), PyFloat (509 / 20)),
                        (PyFloat (454167 / 10000), PyFloat (509 / 20))],
             sleeps = [1, 1]\<rparr>)
   \<and> enrich_elements scenario_str (constant_provider (Some (PyFloat (8503 / 10))))
        [station, bare_way, hut] (Some 0) world0 =
       Inr ([enriched_station, enriched_hut],
            \<lparr>lookups = [(PyFloat (91 / 2), PyFloat (509 / 20)),
                        (PyFloat (454167 / 10000), PyFloat (509 / 20))],
             sleeps = [1, 1]\<rparr>)
   \<and> length [enriched_station, enriched_hut] = length (filter resolvable [station, bare_way, hut])"
proof -
  let ?p = "constant_provider (Some (PyFloat (8503 / 10)))"
  let ?w = "\<lparr>lookups = [(PyFloat (91 / 2), PyFloat (509 / 20)),
                        (PyFloat (454167 / 10000), PyFloat (509 / 20))],
             sleeps = [1, 1]\<rparr>"
  have ty: "etype station \<noteq> None \<and> etype bare_way \<noteq> None \<and> etype hut \<noteq> None"
    by (simp add: bare_way_def station_def hut_def)
  have rs: "filter resolvable [station, bare_way, hut] = [station, hut]"
    by (simp add: resolvable_def get_coordinates_def bare_way_def station_def hut_def)
  have unl: "enrich_elements scenario_str ?p [station, bare_way, hut] None world0 =
               Inr ([enriched_station, enriched_hut], ?w)"
    by (simp add: enrich_elements_def enrich_station enrich_bare_way enrich_hut)
  have "enrich_elements scenario_str ?p [station, bare_way, hut] (Some 0) world0 =
          enrich_elements scenario_str ?p [station, bare_way, hut] None world0"
    by (rule enrich_elements_zero_limit [THEN conjunct1])
  with unl have lim: "enrich_elements scenario_str ?p [station, bare_way, hut] (Some 0) world0 =
                        Inr ([enriched_station, enriched_hut], ?w)"
    by simp
  have "\<forall>e\<in>set [station, bare_way, hut]. etype e \<noteq> None"
    using ty by simp
  with enrich_elements_zero_limit [of scenario_str ?p "[station, bare_way, hut]" world0]
  obtain out w' where
    run: "enrich_elements scenario_str ?p [station, bare_way, hut] (Some 0) world0 = Inr (out, w')"
    and len: "length out = length (filter resolvable [station, bare_way, hut])"
    by blast
  from run lim have "out = [enriched_station, enriched_hut]" by simp
  with len have "length [enriched_station, enriched_hut] =
                   length (filter resolvable [station, bare_way, hut])"
    by simp
  with ty rs unl lim show ?thesis by blast
qed

theorem enrich_element_scenario:
  "get_coordinates station = Inr (Some (PyFloat (91 / 2)), Some (PyFloat (509 / 20)))
   \<and> get_elevation (constant_provider (Some (PyFloat (8503 / 10)))) (lookups world0)
        (PyFloat (91 / 2)) (PyFloat (509 / 20)) = Some (PyFloat (8503 / 10))
   \<and> enrich_element scenario_str (constant_provider (Some (PyFloat (8503 / 10)))) station world0 =
       Inr (Some enriched_station,
            \<lparr>lookups = [(PyFloat (91 / 2), PyFloat (509 / 20))], sleeps = [1]\<rparr>)
   \<and> tag_value enriched_station ''ele'' = Some ''850.3''
   \<and> tag_value enriched_station ''ele:source'' = Some ''SRTM''
   \<and> elevation_fetched enriched_station = Some (PyFloat (8503 / 10))
   \<and> get_elevation (constant_provider None) (lookups world0)
        (PyFloat (91 / 2)) (PyFloat (509 / 20)) = None
   \<and> enrich_element scenario_str (constant_provider None) station world0 =
       Inr (Some station, \<lparr>lookups = [(PyFloat (91 / 2), PyFloat (509 / 20))], sleeps = [1]\<rparr>)
   \<and> etype bare_way \<noteq> None \<and> \<not> resolvable bare_way
   \<and> enrich_element scenario_str (constant_provider None) bare_way world0 = Inr (None, world0)"
proof -
  let ?p = "constant_provider (Some (PyFloat (8503 / 10)))"
  let ?q = "constant_provider None"
  have c: "get_coordinates station = Inr (Some (PyFloat (91 / 2)), Some (PyFloat (509 / 20)))"
    by (simp add: get_coordinates_def station_def)
  have g: "get_elevation ?p (lookups world0) (PyFloat (91 / 2)) (PyFloat (509 / 20)) =
             Some (PyFloat (8503 / 10))"
    by (simp add: constant_provider_def)
  have h: "get_elevation ?q (lookups world0) (PyFloat (91 / 2)) (PyFloat (509 / 20)) = None"
    by (simp add: constant_provider_def)
  have rl: "rate_limit ?p = 1" "rate_limit ?q = 1" "lookups world0 = []" "sleeps world0 = []"
    by (simp_all add: constant_provider_def world0_def)
  have b: "etype bare_way \<noteq> None \<and> \<not> resolvable bare_way"
    by (simp add: bare_way_def resolvable_def get_coordinates_def)
  from enrich_element_spec [of station scenario_str ?p world0] c g
  obtain e' where
    r1: "enrich_element scenario_str ?p station world0 =
           Inr (Some e', world0\<lparr>lookups := lookups world0 @ [(PyFloat (91 / 2), PyFloat (509 / 20))],
                               sleeps := sleeps world0 @ [rate_limit ?p]\<rparr>)" and
    t1: "tag_value e' ''ele'' = Some (scenario_str (PyFloat (8503 / 10)))"
        "tag_value e' ''ele:source'' = Some ''SRTM''"
        "elevation_fetched e' = Some (PyFloat (8503 / 10))"
    by blast
  from r1 have e': "e' = enriched_station"
    by (simp add: enrich_station)
  from enrich_element_spec [of station scenario_str ?q world0] c h
  have r2: "enrich_element scenario_str ?q station world0 =
              Inr (Some station,
                   world0\<lparr>lookups := lookups world0 @ [(PyFloat (91 / 2), PyFloat (509 / 20))],
                         sleeps := sleeps world0 @ [rate_limit ?q]\<rparr>)"
    by auto
  from enrich_element_spec [of bare_way scenario_str ?q world0] b
  have r3: "enrich_element scenario_str ?q bare_way world0 = Inr (None, world0)"
    by blast
  have w: "world0\<lparr>lookups := [(PyFloat (91 / 2), PyFloat (509 / 20))], sleeps := [1]\<rparr> =
             \<lparr>lookups = [(PyFloat (91 / 2), PyFloat (509 / 20))], sleeps = [1]\<rparr>"
    by (simp add: world0_def)
  have s: "scenario_str (PyFloat (8503 / 10)) = ''850.3''"
    by (simp add: scenario_str_def)
  from c g h b r1 r2 r3 t1 show ?thesis
    by (simp add: e' rl w s)
qed

theorem enrich_elements_limit_scenario:
  "(0::int) < 1 \<and> etype bare_way \<noteq> None \<and> etype station \<noteq> None \<and> etype hut \<noteq> None
   \<and> take (nat 1) (filter resolvable [bare_way, station, hut]) = [station]
   \<and> enrich_elements scenario_str (constant_provider (Some (PyFloat (8503 / 10))))
        [bare_way, station, hut] (Some 1) world0 =
       Inr ([enriched_station],
            \<lparr>lookups = [(PyFloat (91 / 2), PyFloat (509 / 20))], sleeps = [1]\<rparr>)"
proof -
  have ty: "\<forall>e\<in>set [bare_way, station, hut]. etype e \<noteq> None"
    by (simp add: bare_way_def station_def hut_def)
  have rs: "take (nat 1) (filter resolvable [bare_way, station, hut]) = [station]"
    by (simp add: resolvable_def get_coordinates_def bare_way_def station_def hut_def)
  have pos: "(0::int) < 1" by simp
  have "enrich_elements scenario_str (constant_provider (Some (PyFloat (8503 / 10))))
          [bare_way, station, hut] (Some 1) world0 =
        enrich_elements scenario_str (constant_provider (Some (PyFloat (8503 / 10))))
          (take (nat 1) (filter resolvable [bare_way, station, hut])) None world0"
    by (rule enrich_elements_limit [OF pos ty, THEN conjunct1])
  also have "\<dots> = enrich_elements scenario_str (constant_provider (Some (PyFloat (8503 / 10))))
                      [station] None world0"
    by (simp only: rs)
  also have "\<dots> = Inr ([enriched_station],
                        \<lparr>lookups = [(PyFloat (91 / 2), PyFloat (509 / 20))], sleeps = [1]\<rparr>)"
    by (simp add: enrich_elements_def enrich_station)
  finally show ?thesis using ty rs by simp
qed

text \<open>
  Neither restriction can be dropped. With \<open>max_count = 0\<close> an enrichment is
  produced for the one element given, not none. With \<open>max_count = 1\<close> two input elements
  are processed for one output: the way without a centre gives no output and is not
  counted.
\<close>

theorem enrich_elements_limit_counterexample:
  "enrich_elements scenario_str (constant_provider (Some (PyFloat (8503 / 10))))
     [station] (Some 0) world0 =
     Inr ([enriched_station],
          \<lparr>lookups = [(PyFloat (91 / 2), PyFloat (509 / 20))], sleeps = [1]\<rparr>)
   \<and> length [enriched_station] \<noteq> nat 0
   \<and> enrich_elements scenario_str (constant_provider (Some (PyFloat (8503 / 10))))
       [bare_way, station] (Some 1) world0 =
       Inr ([enriched_station],
            \<lparr>lookups = [(PyFloat (91 / 2), PyFloat (509 / 20))], sleeps = [1]\<rparr>)
   \<and> length [enriched_station] \<noteq> length [bare_way, station]"
  by (simp add: enrich_elements_def enrich_station enrich_bare_way)

section \<open>Uploader: properties\<close>

text \<open>
  C2 (as amended). Whatever the mode, \<open>upload_element\<close> returns a failure at once and
  makes no call to the store when the element has no id or the id 0, no type or an empty
  type, no \<open>ele\<close> tag or no \<open>ele:source\<close> tag. In dry-run mode an element with a
  non-zero id, a non-empty type and both tags yields \<open>(True, "Dry-run successful")\<close>, again
  with no call to the store.
\<close>

theorem upload_element_preconditions:
  "((eid e = None \<or> eid e = Some 0 \<or> etype e = None \<or> etype e = Some []
       \<or> tag_value e ''ele'' = None \<or> tag_value e ''ele:source'' = None) \<longrightarrow>
      (\<exists>msg. upload_element api self e calls = ((False, msg), calls)))
   \<and> (\<forall>i ty. eid e = Some i \<and> i \<noteq> 0 \<and> etype e = Some ty \<and> ty \<noteq> []
          \<and> tag_value e ''ele'' \<noteq> None \<and> tag_value e ''ele:source'' \<noteq> None
          \<and> dry_run self \<longrightarrow>
        upload_element api self e calls = ((True, ''Dry-run successful''), calls))"
  by (auto simp: upload_element_def tag_value_def Let_def split: option.splits)

text \<open>
  Carrying an id is not enough: at a node that carries the id 0, its type and both tags,
  the dry run reports a missing id.
\<close>

theorem upload_element_zero_id_fails:
  "eid zero_id_node = Some 0 \<and> etype zero_id_node = Some ''node''
   \<and> tag_value zero_id_node ''ele'' = Some ''850.3''
   \<and> tag_value zero_id_node ''ele:source'' = Some ''SRTM''
   \<and> dry_run dry_uploader
   \<and> upload_element accepting_store dry_uploader zero_id_node [] =
       ((False, ''Missing element ID or type''), [])"
  by (simp add: upload_element_def zero_id_node_def dry_uploader_def tag_value_def)

theorem upload_element_scenario:
  "tag_value station ''ele'' = None
   \<and> upload_element accepting_store dry_uploader station [] =
       ((False, ''Missing elevation data in tags''), [])
   \<and> eid enriched_station = Some 1 \<and> etype enriched_station = Some ''node''
   \<and> tag_value enriched_station ''ele'' = Some ''850.3''
   \<and> tag_value enriched_station ''ele:source'' = Some ''SRTM''
   \<and> dry_run dry_uploader
   \<and> upload_element accepting_store dry_uploader enriched_station [] =
       ((True, ''Dry-run successful''), [])"
proof -
  have a: "tag_value station ''ele'' = None"
    by (simp add: station_def tag_value_def)
  have b: "eid enriched_station = Some 1 \<and> etype enriched_station = Some ''node''
           \<and> tag_value enriched_station ''ele'' = Some ''850.3''
           \<and> tag_value enriched_station ''ele:source'' = Some ''SRTM'' \<and> dry_run dry_uploader"
    by (simp add: enriched_station_def station_def tag_value_def dry_uploader_def)
  from a upload_element_preconditions [of station accepting_store dry_uploader "[]"]
  obtain msg where m: "upload_element accepting_store dry_uploader station [] = ((False, msg), [])"
    by blast
  have "msg = ''Missing elevation data in tags''"
    using m by (simp add: upload_element_def station_def dry_uploader_def)
  with m have c: "upload_element accepting_store dry_uploader station [] =
                    ((False, ''Missing elevation data in tags''), [])" by simp
  from b upload_element_preconditions [of enriched_station accepting_store dry_uploader "[]"]
  have d: "upload_element accepting_store dry_uploader enriched_station [] =
             ((True, ''Dry-run successful''), [])"
    by simp
  from a b c d show ?thesis by simp
qed

lemma upload_results_length: "length (upload_results api self es calls) = length es"
  by (induction es arbitrary: calls) (auto split: prod.splits)

lemma upload_results_elements: "map fst (upload_results api self es calls) = es"
  by (induction es arbitrary: calls) (auto split: prod.splits)

lemma ok_split_length:
  "length (filter (\<lambda>(e, ok, m). ok) rs) + length (filter (\<lambda>(e, ok, m). \<not> ok) rs) = length rs"
  by (induction rs) auto

lemma upload_loop_stats:
  "total (fst (upload_loop api self es st calls)) = total st
   \<and> successful (fst (upload_loop api self es st calls)) =
       successful st + length (filter (\<lambda>(e, ok, m). ok) (upload_results api self es calls))
   \<and> failed (fst (upload_loop api self es st calls)) =
       failed st + length (filter (\<lambda>(e, ok, m). \<not> ok) (upload_results api self es calls))
   \<and> upload_errors (fst (upload_loop api self es st calls)) =
       upload_errors st @ map (\<lambda>(e, ok, m). (eid e, m))
                            (filter (\<lambda>(e, ok, m). \<not> ok) (upload_results api self es calls))"
proof (induction es arbitrary: st calls)
  case Nil
  then show ?case by simp
next
  case (Cons e es)
  obtain ok m calls' where r: "upload_element api self e calls = ((ok, m), calls')"
    by (metis surj_pair)
  show ?case
    by (cases ok) (simp_all add: r Cons)
qed

text \<open>
  C9. The statistics of \<open>upload_elements\<close>: \<open>total\<close> is the length of the input and the
  sum of \<open>successful\<close> and \<open>failed\<close>; the error list has one entry for each element whose
  upload failed, in input order, holding the id of that element and the message of its
  failure, and so as many entries as \<open>failed\<close> counts.
\<close>

theorem upload_elements_stats:
  "total (fst (upload_elements api self es calls)) = length es
   \<and> total (fst (upload_elements api self es calls)) =
       successful (fst (upload_elements api self es calls))
       + failed (fst (upload_elements api self es calls))
   \<and> map fst (upload_results api self es calls) = es
   \<and> upload_errors (fst (upload_elements api self es calls)) =
       map (\<lambda>(e, ok, m). (eid e, m))
         (filter (\<lambda>(e, ok, m). \<not> ok) (upload_results api self es calls))
   \<and> failed (fst (upload_elements api self es calls)) =
       length (filter (\<lambda>(e, ok, m). \<not> ok) (upload_results api self es calls))
   \<and> length (upload_errors (fst (upload_elements api self es calls))) =
       failed (fst (upload_elements api self es calls))"
proof -
  let ?rs = "upload_results api self es calls"
  have len: "length (filter (\<lambda>(e, ok, m). ok) ?rs)
             + length (filter (\<lambda>(e, ok, m). \<not> ok) ?rs) = length es"
    using ok_split_length [of ?rs] by (simp add: upload_results_length)
  show ?thesis
    using len upload_results_elements [of api self es calls]
      upload_loop_stats [of api self es _ calls]
    by (simp add: upload_elements_def)
qed

section \<open>Orchestrator: the upload stage\<close>

text \<open>In live mode the constructor fails without both a username and a password.\<close>

lemma OSMUploader_init_live:
  "\<not> truthy_str uname \<or> \<not> truthy_str pwd \<Longrightarrow>
     OSMUploader_init uname pwd False =
       Inl (ValueError ''Username and password required for actual upload'')"
  by (auto simp: OSMUploader_init_def)

text \<open>
  \<open>dry_run\<close> is computed as \<open>args.dry_run if args.dry_run else True\<close>, which is always
  true: the upload stage never reports the configuration error and never builds a live
  uploader.
\<close>

lemma main_upload_always_dry:
  "fst (main_upload api snapshot a calls) \<noteq> Configuration_Error_Reported
   \<and> (\<forall>up st. fst (main_upload api snapshot a calls) = Uploaded up st \<longrightarrow> dry_run up)"
  by (auto simp: main_upload_def run_upload_def OSMUploader_init_def Let_def
           split: option.splits sum.splits prod.splits)

text \<open>
  C1. The code at \<open>--upload\<close> given without \<open>--dry-run\<close> and without credentials, with
  the validated snapshot present: no configuration error is reported; a dry-run uploader
  is built and the upload runs in dry-run mode.
\<close>

theorem main_upload_without_credentials:
  "main_upload api (Some valid_data)
     \<lparr>arg_all = False, arg_upload = True, arg_dry_run = False,
      arg_username = None, arg_password = None\<rparr> calls =
   (Uploaded dry_uploader (fst (upload_all api dry_uploader valid_data calls)),
    snd (upload_all api dry_uploader valid_data calls))"
  by (simp add: main_upload_def run_upload_def OSMUploader_init_def dry_uploader_def
           split: prod.splits)

end
